theory Spec2Isabelle
  imports Main "HOL-Library.Sublist" "HOL-Library.AList"
begin

section \<open>Python text\<close>


definition sq :: char where
  "sq = CHR 0x27"

definition lower_char :: "char \<Rightarrow> char" where
  "lower_char c =
     (case map_of (zip ''ABCDEFGHIJKLMNOPQRSTUVWXYZ'' ''abcdefghijklmnopqrstuvwxyz'') c of
        Some d \<Rightarrow> d
      | None \<Rightarrow> c)"

definition upper_char :: "char \<Rightarrow> char" where
  "upper_char c =
     (case map_of (zip ''abcdefghijklmnopqrstuvwxyz'' ''ABCDEFGHIJKLMNOPQRSTUVWXYZ'') c of
        Some d \<Rightarrow> d
      | None \<Rightarrow> c)"

definition lower :: "string \<Rightarrow> string" where
  "lower s = map lower_char s"

definition upper :: "string \<Rightarrow> string" where
  "upper s = map upper_char s"

definition is_space :: "char \<Rightarrow> bool" where
  "is_space c \<longleftrightarrow>
     c \<in> set [CHR 0x09, CHR 0x0A, CHR 0x0B, CHR 0x0C, CHR 0x0D,
              CHR 0x1C, CHR 0x1D, CHR 0x1E, CHR 0x1F, CHR 0x20]"

definition lstrip :: "string \<Rightarrow> string" where
  "lstrip s = dropWhile is_space s"

definition rstrip :: "string \<Rightarrow> string" where
  "rstrip s = rev (dropWhile is_space (rev s))"

definition strip :: "string \<Rightarrow> string" where
  "strip s = lstrip (rstrip s)"

text \<open>\<open>s.rstrip(chars)\<close>: drop the trailing characters that belong to \<open>chars\<close>.\<close>

definition rstrip_chars :: "string \<Rightarrow> string \<Rightarrow> string" where
  "rstrip_chars chars s = rev (dropWhile (\<lambda>c. c \<in> set chars) (rev s))"

text \<open>\<open>sep.join(parts)\<close>.\<close>

fun join :: "string \<Rightarrow> string list \<Rightarrow> string" where
  "join sep [] = []"
| "join sep [p] = p"
| "join sep (p # q # ps) = p @ sep @ join sep (q # ps)"

text \<open>
  \<open>s.replace(old, new)\<close>: the occurrences of \<open>old\<close> are found from the left and do
  not overlap; with an empty \<open>old\<close>, \<open>new\<close> is put before every character and at the
  end.
\<close>

fun replace :: "string \<Rightarrow> string \<Rightarrow> string \<Rightarrow> string" where
  "replace old new [] = (if old = [] then new else [])"
| "replace old new (c # cs) =
     (if old = [] then new @ c # replace old new cs
      else if prefix old (c # cs) then new @ replace old new (drop (length old) (c # cs))
      else c # replace old new cs)"

text \<open>
  The first occurrence of a separator: the text before it and the text after it
  (\<open>s.partition(sep)\<close> without the separator), or \<open>None\<close> when there is none.
\<close>

fun find_sep :: "string \<Rightarrow> string \<Rightarrow> (string \<times> string) option" where
  "find_sep sep [] = (if sep = [] then Some ([], []) else None)"
| "find_sep sep (c # cs) =
     (if prefix sep (c # cs) then Some ([], drop (length sep) (c # cs))
      else map_option (\<lambda>(a, b). (c # a, b)) (find_sep sep cs))"

section \<open>Python values and exceptions\<close>

datatype pyval = PyNone | Str string

text \<open>Truth value of an \<open>Optional[str]\<close>: \<open>None\<close> and the empty string are false.\<close>

fun truthy :: "pyval \<Rightarrow> bool" where
  "truthy PyNone = False"
| "truthy (Str s) = (s \<noteq> [])"

text \<open>What an f-string prints for a value.\<close>

fun fmt :: "pyval \<Rightarrow> string" where
  "fmt PyNone = ''None''"
| "fmt (Str s) = s"

text \<open>
  Only exceptions derived from \<open>Exception\<close> are modelled. The class
  \<open>SQLAlchemyError\<close> stands for itself and its subclasses; \<open>message\<close> is \<open>str(e)\<close>.
\<close>

datatype exn_class =
  SQLAlchemyError | ValueError | IndexError | AttributeError | RuntimeError
  | FileNotFoundError | OtherException

datatype py_exn = PyExn (cls: exn_class) (message: string)

text \<open>\<open>xs[i]\<close> for a non-negative index.\<close>

definition index :: "'a list \<Rightarrow> nat \<Rightarrow> py_exn + 'a" where
  "index xs i =
     (if i < length xs then Inr (xs ! i)
      else Inl (PyExn IndexError ''list index out of range''))"

text \<open>
  \<open>s.split(sep)\<close> and \<open>s.split(sep, 1)\<close>. Python raises \<open>ValueError\<close> for an empty
  separator.
\<close>

function split_all :: "string \<Rightarrow> string \<Rightarrow> string list" where
  "split_all sep s =
     (if sep = [] then [s]
      else case find_sep sep s of
             None \<Rightarrow> [s]
           | Some (a, b) \<Rightarrow> a # split_all sep b)"
  by pat_completeness auto

lemma find_sep_shorter:
  "find_sep sep s = Some (a, b) \<Longrightarrow> sep \<noteq> [] \<Longrightarrow> length b < length s"
proof (induction s arbitrary: a b)
  case Nil
  then show ?case by simp
next
  case (Cons c cs)
  show ?case
  proof (cases "prefix sep (c # cs)")
    case True
    with Cons.prems show ?thesis by auto
  next
    case False
    with Cons.prems obtain a' where "find_sep sep cs = Some (a', b)"
      by (auto split: prod.splits)
    with Cons.IH Cons.prems(2) have "length b < length cs" by blast
    then show ?thesis by simp
  qed
qed

termination split_all
  by (relation "measure (\<lambda>(sep, s). length s)") (auto dest: find_sep_shorter)

definition split :: "string \<Rightarrow> string \<Rightarrow> py_exn + string list" where
  "split sep s =
     (if sep = [] then Inl (PyExn ValueError ''empty separator'')
      else Inr (split_all sep s))"

definition split1 :: "string \<Rightarrow> string \<Rightarrow> py_exn + string list" where
  "split1 sep s =
     (if sep = [] then Inl (PyExn ValueError ''empty separator'')
      else Inr (case find_sep sep s of None \<Rightarrow> [s] | Some (a, b) \<Rightarrow> [a, b]))"

text \<open>Sequencing of computations that may raise.\<close>

definition bind_exn :: "py_exn + 'a \<Rightarrow> ('a \<Rightarrow> py_exn + 'b) \<Rightarrow> py_exn + 'b" where
  "bind_exn m f = (case m of Inl e \<Rightarrow> Inl e | Inr x \<Rightarrow> f x)"

section \<open>The conversation state and its collaborators\<close>

text \<open>
  \<open>AgentState\<close> is a \<open>TypedDict\<close> with \<open>total=False\<close>: a dictionary in which each of
  the keys \<open>query\<close>, \<open>table_name\<close>, \<open>sql\<close>, \<open>result\<close>, \<open>answer\<close>, \<open>memory\<close>,
  \<open>filters\<close>, \<open>last_action\<close>, \<open>last_group\<close> may be absent, and holds a string or
  \<open>None\<close> otherwise.
\<close>

type_synonym AgentState = "string \<rightharpoonup> pyval"

text \<open>\<open>state.get(k, d)\<close> and \<open>state.get(k)\<close>.\<close>

definition get_default :: "AgentState \<Rightarrow> string \<Rightarrow> pyval \<Rightarrow> pyval" where
  "get_default state k d = (case state k of None \<Rightarrow> d | Some v \<Rightarrow> v)"

definition get :: "AgentState \<Rightarrow> string \<Rightarrow> pyval" where
  "get state k = get_default state k PyNone"

text \<open>
  Every call to the database or to the language model is recorded, in order: the table
  listing, a schema lookup, a chat completion (system and user message), the SQL
  synthesizer (enriched query and table), the query executor, and for the ingestion
  the engine, a statement executed in a transaction, and a chunk written with
  \<open>to_sql\<close> (table, \<open>if_exists\<close> mode, number of rows).
\<close>

datatype to_sql_mode = Replace | Append

datatype event =
  ListTables
  | GetSchema string
  | ChatCompletion string string
  | GenerateSql string string
  | RunQuery string
  | GetEngine
  | Execute string
  | ToSql string to_sql_mode nat

text \<open>
  The database and the language model, as the stages see them: each call returns a value
  or raises. \<open>chat_completion\<close> gives \<open>response.choices[0].message.content\<close>;
  \<open>generate_sql_gemini\<close> is the synthesizer of \<open>sql_generator.py\<close>, which wraps a chat
  completion in retries; \<open>schema_str\<close> and \<open>rows_str\<close> are Python's \<open>str\<close> on a schema
  dictionary and on the list of row records.
\<close>

record ('sch, 'rows) env =
  get_all_table_names :: "py_exn + string list"
  get_table_schema :: "string \<Rightarrow> py_exn + 'sch"
  schema_str :: "'sch \<Rightarrow> string"
  chat_completion :: "string \<Rightarrow> string \<Rightarrow> py_exn + pyval"
  generate_sql_gemini :: "string \<Rightarrow> 'sch \<Rightarrow> string \<Rightarrow> py_exn + pyval"
  run_query :: "string \<Rightarrow> py_exn + 'rows"
  rows_str :: "'rows \<Rightarrow> string"

text \<open>A stage returns the calls it made and either the state or the exception it raised.\<close>

type_synonym 'a outcome = "event list \<times> (py_exn + 'a)"

section \<open>Table identification stage\<close>

text \<open>
  The loop that fills \<open>table_schemas\<close>: a failed lookup stores the placeholder. A
  dictionary keeps the position of a key that is assigned again.
\<close>

definition schema_entry :: "('sch, 'rows) env \<Rightarrow> string \<Rightarrow> string" where
  "schema_entry env t =
     (case get_table_schema env t of
        Inl e \<Rightarrow> ''(schema unavailable)''
      | Inr sch \<Rightarrow> schema_str env sch)"

definition table_schemas :: "('sch, 'rows) env \<Rightarrow> string list \<Rightarrow> (string \<times> string) list" where
  "table_schemas env all_tables =
     fold (\<lambda>t d. AList.update t (schema_entry env t) d) all_tables []"

definition schema_text :: "(string \<times> string) list \<Rightarrow> string" where
  "schema_text schemas =
     join ''\<newline>\<newline>'' (map (\<lambda>(t, cols). ''Table: '' @ t @ ''\<newline>Columns: '' @ cols) schemas)"

definition identify_prompt :: "AgentState \<Rightarrow> string \<Rightarrow> string" where
  "identify_prompt state tables_text =
     ''\<newline>You are a data expert.\<newline>''
     @ ''Given the user'' @ [sq] @ ''s query and available tables, ''
     @ ''choose the ONE table that best matches the query.\<newline>''
     @ ''\<newline>''
     @ ''User Query: '' @ fmt (get state ''query'') @ ''\<newline>''
     @ ''Available Tables and Schemas:\<newline>''
     @ tables_text @ ''\<newline>''
     @ ''\<newline>''
     @ ''Return only the table name (no explanation). If no table fits, return ''
     @ [sq] @ ''none'' @ [sq] @ ''.\<newline>''"

text \<open>
  The body of the second \<open>try\<close>: the reply is stripped and validated. A reply that is
  \<open>None\<close> has no \<open>strip\<close>; that exception, like one raised by the client, is caught
  and logged and the state is returned as it was.
\<close>

definition choose_table :: "AgentState \<Rightarrow> string list \<Rightarrow> py_exn + pyval \<Rightarrow> AgentState" where
  "choose_table state all_tables response =
     (case response of
        Inl e \<Rightarrow> state
      | Inr PyNone \<Rightarrow> state
      | Inr (Str content) \<Rightarrow>
          (let chosen_table = strip content in
           if lower chosen_table = ''none'' \<or> chosen_table \<notin> set all_tables then state
           else state(''table_name'' \<mapsto> Str chosen_table)))"

text \<open>The one chat completion of the stage, with its two messages.\<close>

definition identify_system :: string where
  "identify_system = ''You are an intelligent SQL assistant.''"

definition identify_reply ::
  "('sch, 'rows) env \<Rightarrow> AgentState \<Rightarrow> string list \<Rightarrow> py_exn + pyval" where
  "identify_reply env state all_tables =
     chat_completion env identify_system
       (identify_prompt state (schema_text (table_schemas env all_tables)))"

definition identify_table_step ::
  "('sch, 'rows) env \<Rightarrow> AgentState \<Rightarrow> AgentState outcome" where
  "identify_table_step env state =
     (if truthy (get state ''table_name'') then ([], Inr state)
      else case get_all_table_names env of
        Inl e \<Rightarrow> ([ListTables], Inr state)
      | Inr all_tables \<Rightarrow>
          if all_tables = [] then ([ListTables], Inr state)
          else
            (let prompt = identify_prompt state (schema_text (table_schemas env all_tables))
             in (ListTables # map GetSchema all_tables @ [ChatCompletion identify_system prompt],
                 Inr (choose_table state all_tables (identify_reply env state all_tables)))))"

section \<open>SQL generation stage\<close>

definition breakdown_sql :: "string \<Rightarrow> string \<Rightarrow> string \<Rightarrow> string" where
  "breakdown_sql group_col table flt =
     ''\<newline>SELECT '' @ group_col @ '',\<newline>''
     @ ''       COUNT(*) AS review_count,\<newline>''
     @ ''       AVG(reviewrating) AS avg_rating,\<newline>''
     @ ''       MIN(reviewrating) AS min_rating,\<newline>''
     @ ''       MAX(reviewrating) AS max_rating\<newline>''
     @ ''FROM '' @ table @ ''\<newline>''
     @ ''WHERE '' @ flt @ ''\<newline>''
     @ ''GROUP BY '' @ group_col @ ''\<newline>''
     @ ''ORDER BY review_count DESC;\<newline>''"

text \<open>
  The final check of the stage logs a warning for an empty text or one that does not
  start with \<open>select\<close>; the text is stored in \<open>sql\<close> either way.
\<close>

definition store_sql :: "AgentState \<Rightarrow> string \<Rightarrow> AgentState" where
  "store_sql state sql_text =
     (if sql_text = [] \<or> \<not> prefix ''select'' (lower (strip sql_text))
      then state(''sql'' \<mapsto> Str sql_text)
      else state(''sql'' \<mapsto> Str sql_text))"

text \<open>
  The default branch. An exception of the synthesizer is caught by the stage, which
  returns the state as it was.
\<close>

definition default_generate ::
  "('sch, 'rows) env \<Rightarrow> AgentState \<Rightarrow> 'sch \<Rightarrow> string \<Rightarrow> event list \<times> AgentState" where
  "default_generate env state schema table =
     (let enriched_query =
            ''Conversation so far:\<newline>'' @ fmt (get_default state ''memory'' (Str []))
            @ ''\<newline>\<newline>User Query: '' @ fmt (get state ''query'') @ ''\<newline>''
      in ([GenerateSql enriched_query table],
          case generate_sql_gemini env enriched_query schema table of
            Inl e \<Rightarrow> state
          | Inr v \<Rightarrow>
              (let sql0 = (case v of PyNone \<Rightarrow> [] | Str t \<Rightarrow> t);
                   sql1 = (if truthy (get state ''filters'') \<and> \<not> sublist ''WHERE'' (upper sql0)
                           then rstrip_chars '';'' (strip sql0)
                                @ ''\<newline>WHERE '' @ fmt (get state ''filters'') @ '';''
                           else sql0)
               in store_sql state sql1)))"

text \<open>
  \<open>query_text\<close> is computed before the \<open>try\<close>: a \<open>query\<close> that is present and \<open>None\<close>
  has no \<open>lower\<close>, and that exception leaves the stage. In the two heuristic branches
  nothing can raise.
\<close>

definition query_text_of :: "AgentState \<Rightarrow> py_exn + string" where
  "query_text_of state =
     (case get_default state ''query'' (Str []) of
        PyNone \<Rightarrow> Inl (PyExn AttributeError
                    (sq # ''NoneType'' @ sq # '' object has no attribute '' @ sq # ''lower'' @ [sq]))
      | Str q \<Rightarrow> Inr (lower q))"

definition generate_sql_step ::
  "('sch, 'rows) env \<Rightarrow> AgentState \<Rightarrow> AgentState outcome" where
  "generate_sql_step env state =
     (case get state ''table_name'' of
        PyNone \<Rightarrow> ([], Inr state)
      | Str table \<Rightarrow>
          if table = [] then ([], Inr state)
          else
           (case get_table_schema env table of
            Inl e \<Rightarrow> ([GetSchema table], Inr state)
          | Inr schema \<Rightarrow>
              (case query_text_of state of
                 Inl e \<Rightarrow> ([GetSchema table], Inl e)
               | Inr query_text \<Rightarrow>
                   if sublist ''male'' query_text \<and> truthy (get state ''filters'') then
                     (let new_filters =
                            replace (sq # ''female'' @ [sq]) (sq # ''male'' @ [sq])
                              (replace ''Female'' ''Male'' (fmt (get state ''filters'')));
                          sql_text = ''SELECT * FROM '' @ table @ '' WHERE '' @ new_filters @ '';'';
                          state1 = (state(''filters'' \<mapsto> Str new_filters))
                                     (''last_action'' \<mapsto> Str ''select_records'')
                      in ([GetSchema table], Inr (store_sql state1 sql_text)))
                   else if sublist ''break down'' query_text \<and> truthy (get state ''filters'') then
                     (let group_col =
                            (if sublist ''userage'' query_text then Str ''userage''
                             else if sublist ''usergender'' query_text then Str ''usergender''
                             else get_default state ''last_group'' (Str ''usergender''));
                          sql_text = breakdown_sql (fmt group_col) table (fmt (get state ''filters''));
                          state1 = (state(''last_action'' \<mapsto> Str ''breakdown''))
                                     (''last_group'' \<mapsto> group_col)
                      in ([GetSchema table], Inr (store_sql state1 sql_text)))
                   else
                     (let (calls, state1) = default_generate env state schema table
                      in (GetSchema table # calls, Inr state1)))))"

section \<open>Execution stage\<close>

text \<open>
  The filter capture: \<open>sql.split("WHERE", 1)[1]\<close>, then
  \<open>.split("GROUP BY")[0].split("ORDER BY")[0].strip()\<close>.
\<close>

definition capture_filters :: "string \<Rightarrow> py_exn + string" where
  "capture_filters sql_text =
     bind_exn (split1 ''WHERE'' sql_text) (\<lambda>parts.
     bind_exn (index parts 1) (\<lambda>where_clause.
     bind_exn (split ''GROUP BY'' where_clause) (\<lambda>parts1.
     bind_exn (index parts1 0) (\<lambda>before_group.
     bind_exn (split ''ORDER BY'' before_group) (\<lambda>parts2.
     bind_exn (index parts2 0) (\<lambda>before_order.
     Inr (strip before_order)))))))"

text \<open>The two handlers of the stage.\<close>

definition execution_failed :: "AgentState \<Rightarrow> py_exn \<Rightarrow> AgentState" where
  "execution_failed state e =
     (if cls e = SQLAlchemyError
      then state(''result'' \<mapsto> Str (''Database error: '' @ message e))
      else state(''result'' \<mapsto> Str (''Execution error: '' @ message e)))"

definition execute_sql_step ::
  "('sch, 'rows) env \<Rightarrow> AgentState \<Rightarrow> AgentState outcome" where
  "execute_sql_step env state =
     (case get state ''sql'' of
        PyNone \<Rightarrow> ([], Inr state)
      | Str sql_text \<Rightarrow>
          if sql_text = [] then ([], Inr state)
          else
            ([RunQuery sql_text],
             Inr (case run_query env sql_text of
                    Inl e \<Rightarrow> execution_failed state e
                  | Inr rows \<Rightarrow>
                      (let state1 = state(''result'' \<mapsto> Str (rows_str env rows)) in
                       if sublist ''WHERE'' (upper sql_text) then
                         (case capture_filters sql_text of
                            Inl e \<Rightarrow> execution_failed state1 e
                          | Inr where_clause \<Rightarrow> state1(''filters'' \<mapsto> Str where_clause))
                       else state1))))"

section \<open>Ingestion\<close>

text \<open>
  A parsed file: the column labels and the rows, each row a list of cells. A cell is a
  value, \<open>NaN\<close> or \<open>None\<close>.
\<close>

datatype cell = NaN | NoneValue | Val string

record dataframe =
  df_columns :: "string list"
  df_rows :: "cell list list"

text \<open>
  The configuration read from the process environment (\<open>MAX_ROWS\<close>, \<open>CHUNK_SIZE\<close>,
  \<open>DEFAULT_SCHEMA\<close>) and the libraries the ingestion calls: \<open>pathlib\<close>
  (\<open>exists\<close>, \<open>name\<close>, \<open>suffix\<close> of the path; a path is taken as already
  normalised), \<open>secure_filename\<close>, the two \<open>pandas\<close> readers, the \<open>pandas\<close> call
  \<open>df.where(pd.notnull(df), None)\<close> (what it puts in a missing cell depends on the
  type of the column; the shape is kept), and the database.
  \<open>drop_transaction\<close> is the \<open>with engine.begin()\<close> block around the \<open>DROP\<close>
  statement: an exception of the statement itself is caught inside the block and
  ignored, so that only an exception of the transaction is left. \<open>to_sql\<close> takes the
  table, the \<open>if_exists\<close> mode, the \<open>schema\<close> keyword when it is passed, and the
  chunk.
\<close>

record upload_env =
  MAX_ROWS :: int
  CHUNK_SIZE :: int
  DEFAULT_SCHEMA :: pyval
  path_exists :: "string \<Rightarrow> bool"
  path_name :: "string \<Rightarrow> string"
  path_suffix :: "string \<Rightarrow> string"
  secure_filename :: "string \<Rightarrow> string"
  read_csv :: "string \<Rightarrow> py_exn + dataframe"
  read_excel :: "string \<Rightarrow> py_exn + dataframe"
  where_notnull :: "dataframe \<Rightarrow> dataframe"
  get_engine :: "py_exn + unit"
  drop_transaction :: "string \<Rightarrow> py_exn + unit"
  to_sql :: "string \<Rightarrow> to_sql_mode \<Rightarrow> string option \<Rightarrow> dataframe \<Rightarrow> py_exn + unit"

text \<open>\<open>str\<close> of an integer.\<close>

function str_nat :: "nat \<Rightarrow> string" where
  "str_nat n =
     (if n < 10 then [''0123456789'' ! n]
      else str_nat (n div 10) @ [''0123456789'' ! (n mod 10)])"
  by pat_completeness auto
termination
  by (relation "measure (\<lambda>n. n)") auto

definition str_int :: "int \<Rightarrow> string" where
  "str_int i = (if i < 0 then CHR ''-'' # str_nat (nat (- i)) else str_nat (nat i))"

text \<open>\<open>len(df)\<close> and \<open>df.empty\<close> (an axis of length zero).\<close>

definition len :: "dataframe \<Rightarrow> int" where
  "len df = int (length (df_rows df))"

definition empty :: "dataframe \<Rightarrow> bool" where
  "empty df \<longleftrightarrow> df_rows df = [] \<or> df_columns df = []"

text \<open>
  \<open>df.iloc[start:stop]\<close>: a negative bound counts from the end, and both bounds are
  clipped to the number of rows.
\<close>

definition slice_bound :: "nat \<Rightarrow> int \<Rightarrow> nat" where
  "slice_bound n i = (if i < 0 then nat (max (i + int n) 0) else min (nat i) n)"

definition iloc :: "dataframe \<Rightarrow> int \<Rightarrow> int \<Rightarrow> dataframe" where
  "iloc df start stop =
     (let n = length (df_rows df);
          lo = slice_bound n start;
          hi = slice_bound n stop
      in df\<lparr>df_rows := take (hi - lo) (drop lo (df_rows df))\<rparr>)"

definition validate_filename :: "upload_env \<Rightarrow> string \<Rightarrow> py_exn + string" where
  "validate_filename env filename =
     (let name = secure_filename env filename in
      if name = [] then Inl (PyExn ValueError ''Invalid filename'') else Inr name)"

definition ALLOWED_EXT :: "string list" where
  "ALLOWED_EXT = [''.csv'', ''.xlsx'', ''.xls'']"

definition read_table_from_file :: "upload_env \<Rightarrow> string \<Rightarrow> py_exn + dataframe" where
  "read_table_from_file env path =
     (let ext = lower (path_suffix env path) in
      if ext \<notin> set ALLOWED_EXT then
        Inl (PyExn ValueError
               (''Unsupported file type: '' @ ext @ ''. Allowed: [''
                @ sq # ''.csv'' @ sq # '', '' @ sq # ''.xls'' @ sq # '', '' @ sq # ''.xlsx'' @ sq # '']''))
      else if ext = ''.csv'' then read_csv env path
      else read_excel env path)"

text \<open>\<open>drop_duplicates\<close> keeps the first of equal rows.\<close>

definition drop_duplicates :: "'a list \<Rightarrow> 'a list" where
  "drop_duplicates rs = fold (\<lambda>r kept. if r \<in> set kept then kept else kept @ [r]) rs []"

definition normalize_column :: "string \<Rightarrow> string" where
  "normalize_column c = replace ''-'' ''_'' (replace '' '' ''_'' (lower (strip c)))"

definition normalize_dataframe :: "upload_env \<Rightarrow> dataframe \<Rightarrow> dataframe" where
  "normalize_dataframe env df =
     where_notnull env
       \<lparr> df_columns = map normalize_column (df_columns df),
         df_rows = drop_duplicates (df_rows df) \<rparr>"

text \<open>
  The characters \<open>isalnum\<close> accepts, in the ASCII range. Python accepts letters and
  digits outside ASCII as well.
\<close>

definition isalnum :: "char \<Rightarrow> bool" where
  "isalnum c \<longleftrightarrow>
     c \<in> set (''abcdefghijklmnopqrstuvwxyz'' @ ''ABCDEFGHIJKLMNOPQRSTUVWXYZ'' @ ''0123456789'')"

definition ensure_table_name_safe :: "string \<Rightarrow> py_exn + string" where
  "ensure_table_name_safe name =
     (let n = lower (strip name) in
      if n = [] then Inl (PyExn ValueError ''Table name must not be empty'')
      else if \<not> list_all (\<lambda>c. isalnum c \<or> c = CHR ''_'') n then
        Inl (PyExn ValueError ''Table name may only contain letters, numbers and underscores'')
      else Inr n)"

text \<open>
  The chunk loop. Nothing in the source bounds \<open>CHUNK_SIZE\<close> from below, and with a
  chunk size that is not positive the loop does not end: the result \<open>None\<close> stands for
  a run that does not return.
\<close>

partial_function (option) write_chunks ::
  "upload_env \<Rightarrow> dataframe \<Rightarrow> string \<Rightarrow> string option \<Rightarrow> int \<Rightarrow> bool \<Rightarrow> event list
     \<Rightarrow> (event list \<times> (py_exn + unit)) option" where
  "write_chunks env df table_name schema start first_chunk calls =
     (if start < len df then
        (let stop = min (start + CHUNK_SIZE env) (len df);
             chunk = iloc df start stop;
             mode = (if first_chunk then Replace else Append);
             calls1 = calls @ [ToSql table_name mode (length (df_rows chunk))]
         in case to_sql env table_name mode schema chunk of
              Inl e \<Rightarrow> Some (calls1, Inl e)
            | Inr done \<Rightarrow> write_chunks env df table_name schema stop False calls1)
      else Some (calls, Inr ()))"

declare write_chunks.simps [code]

definition to_sql_with_chunks ::
  "upload_env \<Rightarrow> dataframe \<Rightarrow> string \<Rightarrow> pyval \<Rightarrow> (event list \<times> (py_exn + unit)) option" where
  "to_sql_with_chunks env df table_name schema =
     (let schema_kw = (case schema of PyNone \<Rightarrow> None
                                    | Str sc \<Rightarrow> if sc = [] then None else Some sc);
          drop_sql = ''IF OBJECT_ID(N'' @ sq # table_name @ sq # '', N'' @ sq # ''U'' @ sq
                     # '') IS NOT NULL DROP TABLE '' @ table_name @ '';''
      in case drop_transaction env drop_sql of
           Inl e \<Rightarrow> Some ([Execute drop_sql], Inl e)
         | Inr done \<Rightarrow>
             if len df = 0 then
               Some ([Execute drop_sql], Inl (PyExn ValueError ''Uploaded file contains no rows''))
             else write_chunks env df table_name schema_kw 0 True [Execute drop_sql])"

definition upload_new_table ::
  "upload_env \<Rightarrow> string \<Rightarrow> string \<Rightarrow> (event list \<times> (py_exn + string)) option" where
  "upload_new_table env file_path table_name =
     (if \<not> path_exists env file_path then
        Some ([], Inl (PyExn FileNotFoundError (''File not found: '' @ file_path)))
      else case validate_filename env (path_name env file_path) of
        Inl e \<Rightarrow> Some ([], Inl e)
      | Inr name \<Rightarrow>
      (case ensure_table_name_safe table_name of
        Inl e \<Rightarrow> Some ([], Inl e)
      | Inr table_name_safe \<Rightarrow>
      (case read_table_from_file env file_path of
        Inl e \<Rightarrow> Some ([], Inl e)
      | Inr df0 \<Rightarrow>
          if len df0 > MAX_ROWS env then
            Some ([], Inl (PyExn ValueError
                             (''File too large: '' @ str_int (len df0)
                              @ '' rows exceeds max allowed '' @ str_int (MAX_ROWS env))))
          else
            (let df = normalize_dataframe env df0 in
             if empty df then
               Some ([], Inl (PyExn ValueError ''No data found after cleaning the uploaded file''))
             else case get_engine env of
               Inl e \<Rightarrow> Some ([GetEngine], Inl e)
             | Inr engine \<Rightarrow>
                 (case to_sql_with_chunks env df table_name_safe (DEFAULT_SCHEMA env) of
                    None \<Rightarrow> None
                  | Some (calls, Inl e) \<Rightarrow>
                      Some (GetEngine # calls,
                            Inl (PyExn RuntimeError
                                   (''Failed to upload table '' @ sq # table_name_safe @ sq
                                    # '': '' @ message e)))
                  | Some (calls, Inr done) \<Rightarrow>
                      Some (GetEngine # calls,
                            Inr (''Uploaded '' @ str_int (len df) @ '' rows to table ''
                                 @ sq # table_name_safe @ sq # '' successfully'')))))))"

section \<open>Concrete collaborators for the example runs\<close>

definition demo_env :: "(py_exn + pyval) \<Rightarrow> (py_exn + string) \<Rightarrow> (string, string) env" where
  "demo_env reply execution =
     \<lparr> get_all_table_names = Inr [''reviews''],
       get_table_schema =
         (\<lambda>t. if t = ''reviews'' then Inr ''usergender, userage, reviewrating''
              else Inl (PyExn ValueError (''Table not found: '' @ t))),
       schema_str = (\<lambda>sch. sch),
       chat_completion = (\<lambda>system prompt. reply),
       generate_sql_gemini = (\<lambda>enriched_query schema table. reply),
       run_query = (\<lambda>statement. execution),
       rows_str = (\<lambda>rows. rows) \<rparr>"

definition demo_state :: "string \<Rightarrow> AgentState" where
  "demo_state q =
     [''query'' \<mapsto> Str q, ''table_name'' \<mapsto> Str ''reviews'',
      ''filters'' \<mapsto> Str (''usergender = '' @ sq # ''Female'' @ [sq])]"

definition demo_upload_env :: "int \<Rightarrow> dataframe \<Rightarrow> upload_env" where
  "demo_upload_env cap parsed =
     \<lparr> MAX_ROWS = cap, CHUNK_SIZE = 50000, DEFAULT_SCHEMA = PyNone,
       path_exists = (\<lambda>p. p = ''uploaded_files/reviews.csv''),
       path_name = (\<lambda>p. ''reviews.csv''),
       path_suffix = (\<lambda>p. ''.csv''),
       secure_filename = (\<lambda>n. n),
       read_csv = (\<lambda>p. Inr parsed),
       read_excel = (\<lambda>p. Inl (PyExn OtherException ''not a spreadsheet'')),
       where_notnull = (\<lambda>df. df),
       get_engine = Inr (),
       drop_transaction = (\<lambda>statement. Inr ()),
       to_sql = (\<lambda>table mode schema chunk. Inr ()) \<rparr>"

section \<open>Facts about the text operations\<close>

lemma find_sep_Some:
  "find_sep sep s = Some (a, b) \<Longrightarrow> s = a @ sep @ b"
proof (induction s arbitrary: a)
  case Nil
  then show ?case by (auto split: if_splits)
next
  case (Cons c cs)
  show ?case
  proof (cases "prefix sep (c # cs)")
    case True
    with Cons.prems show ?thesis by (auto simp: prefix_def)
  next
    case False
    with Cons.prems obtain a' where "find_sep sep cs = Some (a', b)" "a = c # a'"
      by (auto split: prod.splits)
    with Cons.IH show ?thesis by simp
  qed
qed

lemma find_sep_None:
  "\<not> sublist sep s \<Longrightarrow> find_sep sep s = None"
proof (induction s)
  case Nil
  then show ?case by auto
next
  case (Cons c cs)
  then have "\<not> prefix sep (c # cs)" "\<not> sublist sep cs"
    by (auto simp: sublist_Cons_right)
  with Cons.IH show ?case by simp
qed

text \<open>An occurrence at the very start lies within the text before a later occurrence.\<close>

lemma early_prefix:
  assumes "prefix old (a @ old @ b)" and "a \<noteq> []"
  shows "prefix old (a @ butlast old)"
proof (cases "old = []")
  case True
  then show ?thesis by simp
next
  case False
  then have "a @ old @ b = (a @ butlast old) @ (last old # b)"
    by simp
  then have "prefix (a @ butlast old) (a @ old @ b)"
    by (metis prefixI)
  moreover from assms(2) False have "length old \<le> length (a @ butlast old)"
    by (cases a) auto
  ultimately show ?thesis
    using assms(1) prefix_length_prefix by blast
qed

lemma find_sep_first:
  assumes "sep \<noteq> []" and "\<not> sublist sep (a @ butlast sep)"
  shows "find_sep sep (a @ sep @ b) = Some (a, b)"
  using assms
proof (induction a)
  case Nil
  then show ?case by (cases sep) auto
next
  case (Cons c a)
  have "\<not> prefix sep ((c # a) @ sep @ b)"
    using early_prefix [of sep "c # a" b] Cons.prems(2) by auto
  moreover have "\<not> sublist sep (a @ butlast sep)"
    using Cons.prems(2) by (auto simp: sublist_Cons_right)
  ultimately show ?case
    using Cons.IH Cons.prems(1) by simp
qed

lemma replace_no_occurrence:
  "old \<noteq> [] \<Longrightarrow> \<not> sublist old s \<Longrightarrow> replace old new s = s"
proof (induction s)
  case Nil
  then show ?case by simp
next
  case (Cons c cs)
  then have "\<not> prefix old (c # cs)" "\<not> sublist old cs"
    by (auto simp: sublist_Cons_right)
  with Cons show ?case by simp
qed

lemma replace_first_occurrence:
  assumes "old \<noteq> []" and "\<not> sublist old (a @ butlast old)"
  shows "replace old new (a @ old @ b) = a @ new @ replace old new b"
  using assms
proof (induction a)
  case Nil
  then show ?case by (cases old) auto
next
  case (Cons c a)
  have "\<not> prefix old ((c # a) @ old @ b)"
    using early_prefix [of old "c # a" b] Cons.prems(2) by auto
  moreover have "\<not> sublist old (a @ butlast old)"
    using Cons.prems(2) by (auto simp: sublist_Cons_right)
  ultimately show ?case
    using Cons.IH Cons.prems(1) by simp
qed

text \<open>A replacement does not create an occurrence of a text that shares no first character with it.\<close>

lemma prefix_replace_back:
  assumes "old \<noteq> []" and "new \<noteq> []" and "hd new \<notin> set p"
  shows "prefix p (replace old new s) \<Longrightarrow> prefix p s"
  using assms(3)
proof (induction s arbitrary: p)
  case Nil
  with assms(1) show ?case by simp
next
  case (Cons c cs)
  show ?case
  proof (cases p)
    case Nil
    then show ?thesis by simp
  next
    case p: (Cons x p')
    show ?thesis
    proof (cases "prefix old (c # cs)")
      case True
      with assms(1) have "replace old new (c # cs) = new @ replace old new (drop (length old) (c # cs))"
        by simp
      with Cons.prems(1) p assms(2) have "x = hd new"
        by (cases new) auto
      with Cons.prems(2) p show ?thesis by simp
    next
      case False
      with assms(1) have "replace old new (c # cs) = c # replace old new cs"
        by simp
      with Cons.prems(1) p have "x = c" and "prefix p' (replace old new cs)"
        by auto
      moreover from Cons.prems(2) p have "hd new \<notin> set p'" by simp
      ultimately show ?thesis
        using Cons.IH [of p'] p by simp
    qed
  qed
qed

lemma sublist_behind:
  assumes "sublist p (new @ ys)" and "p \<noteq> []" and "hd p \<notin> set new"
  shows "sublist p ys"
  using assms
proof (induction new)
  case Nil
  then show ?case by simp
next
  case (Cons n new)
  from Cons.prems(2,3) have "\<not> prefix p ((n # new) @ ys)"
    by (cases p) auto
  with Cons.prems(1) have "sublist p (new @ ys)"
    by (simp add: sublist_Cons_right)
  with Cons.IH Cons.prems(2,3) show ?case by simp
qed

lemma sublist_replace_back:
  "old \<noteq> [] \<Longrightarrow> new \<noteq> [] \<Longrightarrow> p \<noteq> [] \<Longrightarrow> hd new \<notin> set p \<Longrightarrow> hd p \<notin> set new \<Longrightarrow>
   sublist p (replace old new s) \<Longrightarrow> sublist p s"
proof (induction old new s rule: replace.induct)
  case (1 old new)
  then show ?case by simp
next
  case (2 old new c cs)
  show ?case
  proof (cases "prefix old (c # cs)")
    case True
    with "2.prems"(1) have "replace old new (c # cs) =
        new @ replace old new (drop (length old) (c # cs))"
      by simp
    with "2.prems"(3,5,6) have "sublist p (replace old new (drop (length old) (c # cs)))"
      using sublist_behind by metis
    with "2.IH"(2) "2.prems"(1-5) True have "sublist p (drop (length old) (c # cs))"
      by blast
    then show ?thesis
      using sublist_drop sublist_order.order_trans by blast
  next
    case False
    with "2.prems"(1) have eq: "replace old new (c # cs) = c # replace old new cs"
      by simp
    with "2.prems"(6) consider
      (here) "prefix p (c # replace old new cs)" | (later) "sublist p (replace old new cs)"
      by (auto simp: sublist_Cons_right)
    then show ?thesis
    proof cases
      case here
      with eq have "prefix p (replace old new (c # cs))" by simp
      with "2.prems"(1,2,4) have "prefix p (c # cs)"
        by (rule prefix_replace_back)
      then show ?thesis by (rule prefix_imp_sublist)
    next
      case later
      with "2.IH"(3) "2.prems"(1-5) False have "sublist p cs"
        by blast
      then show ?thesis by (simp add: sublist_Cons_right)
    qed
  qed
qed

lemma replace_removes_old:
  "old \<noteq> [] \<Longrightarrow> new \<noteq> [] \<Longrightarrow> hd new \<notin> set old \<Longrightarrow> hd old \<notin> set new \<Longrightarrow>
   \<not> sublist old (replace old new s)"
proof (induction old new s rule: replace.induct)
  case (1 old new)
  then show ?case by simp
next
  case (2 old new c cs)
  show ?case
  proof (cases "prefix old (c # cs)")
    case True
    with "2.prems"(1) have eq: "replace old new (c # cs) =
        new @ replace old new (drop (length old) (c # cs))"
      by simp
    from "2.IH"(2) "2.prems" True
    have "\<not> sublist old (replace old new (drop (length old) (c # cs)))"
      by blast
    with eq "2.prems"(1,4) show ?thesis
      using sublist_behind by metis
  next
    case False
    with "2.prems"(1) have eq: "replace old new (c # cs) = c # replace old new cs"
      by simp
    have "\<not> prefix old (c # replace old new cs)"
    proof
      assume "prefix old (c # replace old new cs)"
      with eq have "prefix old (replace old new (c # cs))" by simp
      with "2.prems"(1,2,3) have "prefix old (c # cs)"
        by (rule prefix_replace_back)
      with False show False by contradiction
    qed
    moreover from "2.IH"(3) "2.prems" False have "\<not> sublist old (replace old new cs)"
      by blast
    ultimately show ?thesis
      using eq by (simp add: sublist_Cons_right)
  qed
qed

text \<open>After the gender swap no \<open>Female\<close> is left in the filters.\<close>

lemma swap_leaves_no_Female:
  "\<not> sublist ''Female''
       (replace (sq # ''female'' @ [sq]) (sq # ''male'' @ [sq]) (replace ''Female'' ''Male'' flt))"
proof
  assume "sublist ''Female''
       (replace (sq # ''female'' @ [sq]) (sq # ''male'' @ [sq]) (replace ''Female'' ''Male'' flt))"
  then have "sublist ''Female'' (replace ''Female'' ''Male'' flt)"
    by (rule sublist_replace_back [rotated 5]) (simp_all add: sq_def)
  moreover have "\<not> sublist ''Female'' (replace ''Female'' ''Male'' flt)"
    by (rule replace_removes_old) simp_all
  ultimately show False by contradiction
qed

text \<open>Filters that mention neither spelling are not changed by the swap.\<close>

lemma swap_without_occurrence:
  assumes "\<not> sublist ''Female'' flt" and "\<not> sublist (sq # ''female'' @ [sq]) flt"
  shows "replace (sq # ''female'' @ [sq]) (sq # ''male'' @ [sq]) (replace ''Female'' ''Male'' flt) = flt"
  using assms by (simp add: replace_no_occurrence)

lemma store_sql_eq: "store_sql state sql_text = state(''sql'' \<mapsto> Str sql_text)"
  by (simp add: store_sql_def)

section \<open>The heuristic branches\<close>

lemma gender_swap_branch:
  assumes "state ''table_name'' = Some (Str table)" and "table \<noteq> []"
    and "get_table_schema env table = Inr schema"
    and "state ''filters'' = Some (Str flt)" and "flt \<noteq> []"
    and "state ''query'' = Some (Str q)" and "sublist ''male'' (lower q)"
  shows "generate_sql_step env state =
           (let new_filters =
                  replace (sq # ''female'' @ [sq]) (sq # ''male'' @ [sq])
                    (replace ''Female'' ''Male'' flt)
            in ([GetSchema table],
                Inr (state(''filters'' \<mapsto> Str new_filters,
                           ''last_action'' \<mapsto> Str ''select_records'',
                           ''sql'' \<mapsto> Str (''SELECT * FROM '' @ table @ '' WHERE ''
                                             @ new_filters @ '';'')))))"
  using assms
  by (simp add: generate_sql_step_def query_text_of_def get_def get_default_def
      store_sql_eq Let_def)

lemma breakdown_branch:
  assumes "state ''table_name'' = Some (Str table)" and "table \<noteq> []"
    and "get_table_schema env table = Inr schema"
    and "state ''filters'' = Some (Str flt)" and "flt \<noteq> []"
    and "state ''query'' = Some (Str q)"
    and "sublist ''break down'' (lower q)" and "\<not> sublist ''male'' (lower q)"
  shows "generate_sql_step env state =
           (let group_col =
                  (if sublist ''userage'' (lower q) then Str ''userage''
                   else if sublist ''usergender'' (lower q) then Str ''usergender''
                   else case state ''last_group'' of
                          None \<Rightarrow> Str ''usergender''
                        | Some v \<Rightarrow> v)
            in ([GetSchema table],
                Inr (state(''last_action'' \<mapsto> Str ''breakdown'',
                           ''last_group'' \<mapsto> group_col,
                           ''sql'' \<mapsto> Str (breakdown_sql (fmt group_col) table flt)))))"
  using assms
  by (simp add: generate_sql_step_def query_text_of_def get_def get_default_def
      store_sql_eq Let_def)

lemma male_in_female: "sublist ''male'' s" if "sublist ''female'' s"
proof -
  have "sublist ''male'' ''female''"
    by (simp add: sublist_Cons_right)
  with that show ?thesis
    using sublist_order.order_trans by blast
qed

lemmas demo_simps =
  demo_env_def demo_state_def sq_def lower_def lower_char_def
  upper_def upper_char_def sublist_Cons_right

section \<open>The claims\<close>

text \<open>
  C1. With a table set, a schema lookup that succeeds, non-empty filters and a
  lower-cased query that contains \<open>male\<close>, the generation stage takes the gender-swap
  branch. Its only call is the schema lookup: neither the synthesizer nor a chat
  completion is called. \<open>sql\<close> is \<open>SELECT * FROM <table> WHERE <new filters>;\<close>, where
  the new filters are the old ones with \<open>Female\<close> replaced by \<open>Male\<close> and then
  \<open>'female'\<close> by \<open>'male'\<close>; they are stored in \<open>filters\<close>, \<open>last_action\<close> is
  \<open>select_records\<close>, and no other key changes.
\<close>

theorem generate_sql_step_gender_swap:
  assumes "state ''table_name'' = Some (Str table)" and "table \<noteq> []"
    and "get_table_schema env table = Inr schema"
    and "state ''filters'' = Some (Str flt)" and "flt \<noteq> []"
    and "state ''query'' = Some (Str q)" and "sublist ''male'' (lower q)"
  shows "generate_sql_step env state =
           (let new_filters =
                  replace (sq # ''female'' @ [sq]) (sq # ''male'' @ [sq])
                    (replace ''Female'' ''Male'' flt)
            in ([GetSchema table],
                Inr (state(''filters'' \<mapsto> Str new_filters,
                           ''last_action'' \<mapsto> Str ''select_records'',
                           ''sql'' \<mapsto> Str (''SELECT * FROM '' @ table @ '' WHERE ''
                                             @ new_filters @ '';'')))))"
  using assms by (rule gender_swap_branch)

theorem generate_sql_step_gender_swap_witness:
  "generate_sql_step (demo_env (Inr (Str ''none'')) (Inr ''[]'')) (demo_state ''Show MALE instead'') =
     ([GetSchema ''reviews''],
      Inr ((demo_state ''Show MALE instead'')
             (''filters'' \<mapsto> Str (''usergender = '' @ sq # ''Male'' @ [sq]),
              ''last_action'' \<mapsto> Str ''select_records'',
              ''sql'' \<mapsto> Str (''SELECT * FROM reviews WHERE usergender = ''
                                @ sq # ''Male'' @ sq # '';''))))"
proof -
  let ?env = "demo_env (Inr (Str ''none'')) (Inr ''[]'')"
  let ?state = "demo_state ''Show MALE instead''"
  have 1: "?state ''table_name'' = Some (Str ''reviews'')" and 2: "''reviews'' \<noteq> []"
    and 3: "get_table_schema ?env ''reviews'' = Inr ''usergender, userage, reviewrating''"
    and 4: "?state ''filters'' = Some (Str (''usergender = '' @ sq # ''Female'' @ [sq]))"
    and 5: "''usergender = '' @ sq # ''Female'' @ [sq] \<noteq> []"
    and 6: "?state ''query'' = Some (Str ''Show MALE instead'')"
    and 7: "sublist ''male'' (lower ''Show MALE instead'')"
    by (simp_all add: demo_simps)
  show ?thesis
    using generate_sql_step_gender_swap [OF 1 2 3 4 5 6 7]
    by (simp add: sq_def Let_def)
qed

text \<open>
  C9. The test for \<open>male\<close> is a substring test, and \<open>female\<close> contains \<open>male\<close>: with a
  table set, a schema lookup that succeeds and non-empty filters, a query that mentions
  \<open>female\<close> takes the gender-swap branch. \<open>Female\<close> is rewritten to \<open>Male\<close> in the
  stored filters, and the synthesizer of the default path is not called.
\<close>

theorem generate_sql_step_female_swaps:
  assumes "state ''table_name'' = Some (Str table)" and "table \<noteq> []"
    and "get_table_schema env table = Inr schema"
    and "state ''filters'' = Some (Str flt)" and "flt \<noteq> []"
    and "state ''query'' = Some (Str q)" and "sublist ''female'' (lower q)"
  shows "sublist ''male'' (lower q) \<and>
         generate_sql_step env state =
           (let new_filters =
                  replace (sq # ''female'' @ [sq]) (sq # ''male'' @ [sq])
                    (replace ''Female'' ''Male'' flt)
            in ([GetSchema table],
                Inr (state(''filters'' \<mapsto> Str new_filters,
                           ''last_action'' \<mapsto> Str ''select_records'',
                           ''sql'' \<mapsto> Str (''SELECT * FROM '' @ table @ '' WHERE ''
                                             @ new_filters @ '';'')))))"
proof -
  from assms(7) have "sublist ''male'' (lower q)"
    by (rule male_in_female)
  with assms(1-6) show ?thesis
    by (simp add: gender_swap_branch)
qed

theorem generate_sql_step_female_swaps_witness:
  "generate_sql_step (demo_env (Inr (Str ''SELECT * FROM reviews'')) (Inr ''[]''))
     (demo_state ''show female reviewers'') =
     ([GetSchema ''reviews''],
      Inr ((demo_state ''show female reviewers'')
             (''filters'' \<mapsto> Str (''usergender = '' @ sq # ''Male'' @ [sq]),
              ''last_action'' \<mapsto> Str ''select_records'',
              ''sql'' \<mapsto> Str (''SELECT * FROM reviews WHERE usergender = ''
                                @ sq # ''Male'' @ sq # '';''))))"
proof -
  let ?env = "demo_env (Inr (Str ''SELECT * FROM reviews'')) (Inr ''[]'')"
  let ?state = "demo_state ''show female reviewers''"
  have 1: "?state ''table_name'' = Some (Str ''reviews'')" and 2: "''reviews'' \<noteq> []"
    and 3: "get_table_schema ?env ''reviews'' = Inr ''usergender, userage, reviewrating''"
    and 4: "?state ''filters'' = Some (Str (''usergender = '' @ sq # ''Female'' @ [sq]))"
    and 5: "''usergender = '' @ sq # ''Female'' @ [sq] \<noteq> []"
    and 6: "?state ''query'' = Some (Str ''show female reviewers'')"
    and 7: "sublist ''female'' (lower ''show female reviewers'')"
    by (simp_all add: demo_simps)
  show ?thesis
    using generate_sql_step_female_swaps [OF 1 2 3 4 5 6 7]
    by (simp add: sq_def Let_def)
qed

text \<open>
  C3. With a table set, a schema lookup that succeeds, non-empty filters and a
  lower-cased query that contains \<open>break down\<close> and \<open>userage\<close> but not \<open>male\<close>, the
  generation stage builds the aggregate statement over \<open>userage\<close>: the select list is
  \<open>userage\<close>, \<open>COUNT(*) AS review_count\<close>, \<open>AVG(reviewrating) AS avg_rating\<close>,
  \<open>MIN(reviewrating) AS min_rating\<close>, \<open>MAX(reviewrating) AS max_rating\<close>, followed by
  \<open>WHERE <filters>\<close>, \<open>GROUP BY userage\<close> and \<open>ORDER BY review_count DESC\<close>;
  \<open>last_action\<close> is \<open>breakdown\<close> and \<open>last_group\<close> is \<open>userage\<close>.
\<close>

theorem generate_sql_step_breakdown_userage:
  assumes "state ''table_name'' = Some (Str table)" and "table \<noteq> []"
    and "get_table_schema env table = Inr schema"
    and "state ''filters'' = Some (Str flt)" and "flt \<noteq> []"
    and "state ''query'' = Some (Str q)"
    and "sublist ''break down'' (lower q)" and "\<not> sublist ''male'' (lower q)"
    and "sublist ''userage'' (lower q)"
  shows "generate_sql_step env state =
           ([GetSchema table],
            Inr (state(''last_action'' \<mapsto> Str ''breakdown'',
                       ''last_group'' \<mapsto> Str ''userage'',
                       ''sql'' \<mapsto> Str
                          (''\<newline>SELECT userage,\<newline>''
                           @ ''       COUNT(*) AS review_count,\<newline>''
                           @ ''       AVG(reviewrating) AS avg_rating,\<newline>''
                           @ ''       MIN(reviewrating) AS min_rating,\<newline>''
                           @ ''       MAX(reviewrating) AS max_rating\<newline>''
                           @ ''FROM '' @ table @ ''\<newline>''
                           @ ''WHERE '' @ flt @ ''\<newline>''
                           @ ''GROUP BY userage\<newline>''
                           @ ''ORDER BY review_count DESC;\<newline>''))))"
  using breakdown_branch [OF assms(1-8)] assms(9)
  by (simp add: breakdown_sql_def)

theorem generate_sql_step_breakdown_userage_witness:
  "generate_sql_step (demo_env (Inr (Str ''none'')) (Inr ''[]''))
     (demo_state ''Break down by userage'') =
     ([GetSchema ''reviews''],
      Inr ((demo_state ''Break down by userage'')
             (''last_action'' \<mapsto> Str ''breakdown'',
              ''last_group'' \<mapsto> Str ''userage'',
              ''sql'' \<mapsto> Str
                 (''\<newline>SELECT userage,\<newline>''
                  @ ''       COUNT(*) AS review_count,\<newline>''
                  @ ''       AVG(reviewrating) AS avg_rating,\<newline>''
                  @ ''       MIN(reviewrating) AS min_rating,\<newline>''
                  @ ''       MAX(reviewrating) AS max_rating\<newline>''
                  @ ''FROM reviews\<newline>''
                  @ ''WHERE usergender = '' @ sq # ''Female'' @ sq # ''\<newline>''
                  @ ''GROUP BY userage\<newline>''
                  @ ''ORDER BY review_count DESC;\<newline>''))))"
proof -
  let ?env = "demo_env (Inr (Str ''none'')) (Inr ''[]'')"
  let ?state = "demo_state ''Break down by userage''"
  have 1: "?state ''table_name'' = Some (Str ''reviews'')" and 2: "''reviews'' \<noteq> []"
    and 3: "get_table_schema ?env ''reviews'' = Inr ''usergender, userage, reviewrating''"
    and 4: "?state ''filters'' = Some (Str (''usergender = '' @ sq # ''Female'' @ [sq]))"
    and 5: "''usergender = '' @ sq # ''Female'' @ [sq] \<noteq> []"
    and 6: "?state ''query'' = Some (Str ''Break down by userage'')"
    and 7: "sublist ''break down'' (lower ''Break down by userage'')"
    and 8: "\<not> sublist ''male'' (lower ''Break down by userage'')"
    and 9: "sublist ''userage'' (lower ''Break down by userage'')"
    by (simp_all add: demo_simps)
  show ?thesis
    using generate_sql_step_breakdown_userage [OF 1 2 3 4 5 6 7 8 9]
    by (simp add: sq_def)
qed

text \<open>
  C4, as the code has it. In the breakdown branch the group column is \<open>userage\<close> if the
  lower-cased query contains \<open>userage\<close>; otherwise \<open>usergender\<close> if it contains
  \<open>usergender\<close>; otherwise the value stored under \<open>last_group\<close>, and \<open>usergender\<close>
  when the state has no such key. The test for \<open>userage\<close> comes first, so a query that
  contains both names is grouped by \<open>userage\<close>.
\<close>

theorem generate_sql_step_breakdown_group:
  assumes "state ''table_name'' = Some (Str table)" and "table \<noteq> []"
    and "get_table_schema env table = Inr schema"
    and "state ''filters'' = Some (Str flt)" and "flt \<noteq> []"
    and "state ''query'' = Some (Str q)"
    and "sublist ''break down'' (lower q)" and "\<not> sublist ''male'' (lower q)"
  shows "generate_sql_step env state =
           (let group_col =
                  (if sublist ''userage'' (lower q) then Str ''userage''
                   else if sublist ''usergender'' (lower q) then Str ''usergender''
                   else case state ''last_group'' of
                          None \<Rightarrow> Str ''usergender''
                        | Some v \<Rightarrow> v)
            in ([GetSchema table],
                Inr (state(''last_action'' \<mapsto> Str ''breakdown'',
                           ''last_group'' \<mapsto> group_col,
                           ''sql'' \<mapsto> Str (breakdown_sql (fmt group_col) table flt)))))"
  using assms by (rule breakdown_branch)

theorem generate_sql_step_breakdown_group_witness:
  "generate_sql_step (demo_env (Inr (Str ''none'')) (Inr ''[]''))
     (demo_state ''break down the ratings'') =
     ([GetSchema ''reviews''],
      Inr ((demo_state ''break down the ratings'')
             (''last_action'' \<mapsto> Str ''breakdown'',
              ''last_group'' \<mapsto> Str ''usergender'',
              ''sql'' \<mapsto> Str (breakdown_sql ''usergender'' ''reviews''
                                 (''usergender = '' @ sq # ''Female'' @ [sq])))))"
proof -
  let ?env = "demo_env (Inr (Str ''none'')) (Inr ''[]'')"
  let ?state = "demo_state ''break down the ratings''"
  have 1: "?state ''table_name'' = Some (Str ''reviews'')" and 2: "''reviews'' \<noteq> []"
    and 3: "get_table_schema ?env ''reviews'' = Inr ''usergender, userage, reviewrating''"
    and 4: "?state ''filters'' = Some (Str (''usergender = '' @ sq # ''Female'' @ [sq]))"
    and 5: "''usergender = '' @ sq # ''Female'' @ [sq] \<noteq> []"
    and 6: "?state ''query'' = Some (Str ''break down the ratings'')"
    and 7: "sublist ''break down'' (lower ''break down the ratings'')"
    and 8: "\<not> sublist ''male'' (lower ''break down the ratings'')"
    by (simp_all add: demo_simps)
  have 9: "\<not> sublist ''userage'' (lower ''break down the ratings'')"
    and 10: "\<not> sublist ''usergender'' (lower ''break down the ratings'')"
    and 11: "?state ''last_group'' = None"
    by (simp_all add: demo_simps)
  show ?thesis
    using generate_sql_step_breakdown_group [OF 1 2 3 4 5 6 7 8] 9 10 11
    by (simp add: Let_def)
qed

text \<open>
  C4, as stated, fails. The query \<open>break down by usergender and userage\<close> contains
  \<open>usergender\<close>, so the claim has the stage group by \<open>usergender\<close>; the stage groups
  by \<open>userage\<close>.
\<close>

theorem breakdown_group_order_counterexample:
  "sublist ''usergender'' (lower ''break down by usergender and userage'')
   \<and> generate_sql_step (demo_env (Inr (Str ''none'')) (Inr ''[]''))
         (demo_state ''break down by usergender and userage'') =
       ([GetSchema ''reviews''],
        Inr ((demo_state ''break down by usergender and userage'')
               (''last_action'' \<mapsto> Str ''breakdown'',
                ''last_group'' \<mapsto> Str ''userage'',
                ''sql'' \<mapsto> Str (breakdown_sql ''userage'' ''reviews''
                                   (''usergender = '' @ sq # ''Female'' @ [sq])))))
   \<and> generate_sql_step (demo_env (Inr (Str ''none'')) (Inr ''[]''))
         (demo_state ''break down by usergender and userage'') \<noteq>
       ([GetSchema ''reviews''],
        Inr ((demo_state ''break down by usergender and userage'')
               (''last_action'' \<mapsto> Str ''breakdown'',
                ''last_group'' \<mapsto> Str ''usergender'',
                ''sql'' \<mapsto> Str (breakdown_sql ''usergender'' ''reviews''
                                   (''usergender = '' @ sq # ''Female'' @ [sq])))))"
proof -
  let ?env = "demo_env (Inr (Str ''none'')) (Inr ''[]'')"
  let ?q = "''break down by usergender and userage''"
  let ?flt = "''usergender = '' @ sq # ''Female'' @ [sq]"
  let ?actual = "(demo_state ?q)(''last_action'' \<mapsto> Str ''breakdown'',
                   ''last_group'' \<mapsto> Str ''userage'',
                   ''sql'' \<mapsto> Str (breakdown_sql ''userage'' ''reviews'' ?flt))"
  let ?claimed = "(demo_state ?q)(''last_action'' \<mapsto> Str ''breakdown'',
                   ''last_group'' \<mapsto> Str ''usergender'',
                   ''sql'' \<mapsto> Str (breakdown_sql ''usergender'' ''reviews'' ?flt))"
  have 1: "demo_state ?q ''table_name'' = Some (Str ''reviews'')" and 2: "''reviews'' \<noteq> []"
    and 3: "get_table_schema ?env ''reviews'' = Inr ''usergender, userage, reviewrating''"
    and 4: "demo_state ?q ''filters'' = Some (Str ?flt)"
    and 5: "?flt \<noteq> []"
    and 6: "demo_state ?q ''query'' = Some (Str ?q)"
    and 7: "sublist ''break down'' (lower ?q)"
    and 8: "\<not> sublist ''male'' (lower ?q)"
    by (simp_all add: demo_simps)
  have 9: "sublist ''userage'' (lower ?q)" and 10: "sublist ''usergender'' (lower ?q)"
    by (simp_all add: demo_simps)
  have run: "generate_sql_step ?env (demo_state ?q) = ([GetSchema ''reviews''], Inr ?actual)"
    using breakdown_branch [OF 1 2 3 4 5 6 7 8] 9 by (simp add: Let_def)
  have "?actual ''last_group'' \<noteq> ?claimed ''last_group''"
    by simp
  then have "?actual \<noteq> ?claimed"
    by metis
  with run 10 show ?thesis
    by simp
qed

text \<open>
  C5. When \<open>table_name\<close> already holds a non-empty name, the identification stage
  returns the state as it is and makes no call: no table listing, no schema lookup, no
  chat completion.
\<close>

theorem identify_table_step_sticky:
  assumes "state ''table_name'' = Some (Str t)" and "t \<noteq> []"
  shows "identify_table_step env state = ([], Inr state)"
  using assms by (simp add: identify_table_step_def get_def get_default_def)

theorem identify_table_step_sticky_witness:
  "identify_table_step (demo_env (Inr (Str ''none'')) (Inr ''[]'')) (demo_state ''show male instead'')
   = ([], Inr (demo_state ''show male instead''))"
proof -
  have 1: "demo_state ''show male instead'' ''table_name'' = Some (Str ''reviews'')"
    and 2: "''reviews'' \<noteq> []"
    by (simp_all add: demo_state_def)
  show ?thesis
    using identify_table_step_sticky
      [where state = "demo_state ''show male instead''"
         and env = "demo_env (Inr (Str ''none'')) (Inr ''[]'')", OF 1 2]
    by simp
qed



text \<open>
  C7. With a non-empty \<open>sql\<close>, a query execution that raises does not make the
  execution stage raise: the stage returns the state with \<open>result\<close> set to
  \<open>Database error: \<close> followed by the message for a database-layer error, and to
  \<open>Execution error: \<close> followed by the message for any other error.
\<close>

theorem execute_sql_step_failure_is_text:
  assumes "state ''sql'' = Some (Str sql_text)" and "sql_text \<noteq> []"
    and "run_query env sql_text = Inl e"
  shows "execute_sql_step env state =
           ([RunQuery sql_text],
            Inr (state(''result'' \<mapsto>
                   Str ((if cls e = SQLAlchemyError then ''Database error: ''
                         else ''Execution error: '') @ message e))))"
  using assms
  by (simp add: execute_sql_step_def execution_failed_def get_def get_default_def)

theorem execute_sql_step_failure_is_text_witness:
  "execute_sql_step (demo_env (Inr (Str ''none'')) (Inl (PyExn SQLAlchemyError ''connection lost'')))
     [''sql'' \<mapsto> Str ''SELECT * FROM reviews''] =
     ([RunQuery ''SELECT * FROM reviews''],
      Inr [''sql'' \<mapsto> Str ''SELECT * FROM reviews'',
           ''result'' \<mapsto> Str ''Database error: connection lost''])
   \<and> execute_sql_step (demo_env (Inr (Str ''none'')) (Inl (PyExn OtherException ''no such column'')))
     [''sql'' \<mapsto> Str ''SELECT * FROM reviews''] =
     ([RunQuery ''SELECT * FROM reviews''],
      Inr [''sql'' \<mapsto> Str ''SELECT * FROM reviews'',
           ''result'' \<mapsto> Str ''Execution error: no such column''])"
proof -
  let ?db = "demo_env (Inr (Str ''none'')) (Inl (PyExn SQLAlchemyError ''connection lost''))"
  let ?other = "demo_env (Inr (Str ''none'')) (Inl (PyExn OtherException ''no such column''))"
  let ?state = "[''sql'' \<mapsto> Str ''SELECT * FROM reviews'']"
  have 1: "?state ''sql'' = Some (Str ''SELECT * FROM reviews'')"
    and 2: "''SELECT * FROM reviews'' \<noteq> []"
    and 3: "run_query ?db ''SELECT * FROM reviews'' = Inl (PyExn SQLAlchemyError ''connection lost'')"
    and 4: "run_query ?other ''SELECT * FROM reviews'' = Inl (PyExn OtherException ''no such column'')"
    by (simp_all add: demo_env_def)
  show ?thesis
    using execute_sql_step_failure_is_text [where state = ?state and env = ?db, OF 1 2 3]
      execute_sql_step_failure_is_text [where state = ?state and env = ?other, OF 1 2 4]
    by simp
qed

text \<open>
  C10. When the query runs, and the statement contains \<open>where\<close> in some casing but not
  the upper-case \<open>WHERE\<close>, the filter capture raises an index error after the rows
  were stored; the catch-all handler replaces the stored rows in \<open>result\<close> by
  \<open>Execution error: list index out of range\<close>, and \<open>filters\<close> is not changed.
\<close>

theorem execute_sql_step_lowercase_where:
  assumes "state ''sql'' = Some (Str sql_text)"
    and "run_query env sql_text = Inr rows"
    and "sublist ''WHERE'' (upper sql_text)"
    and "\<not> sublist ''WHERE'' sql_text"
  shows "execute_sql_step env state =
           ([RunQuery sql_text],
            Inr (state(''result'' \<mapsto> Str ''Execution error: list index out of range'')))"
proof -
  from assms(3) have ne: "sql_text \<noteq> []"
    by (auto simp: upper_def)
  from assms(4) have "capture_filters sql_text = Inl (PyExn IndexError ''list index out of range'')"
    by (simp add: capture_filters_def split1_def find_sep_None bind_exn_def index_def)
  with assms ne show ?thesis
    by (simp add: execute_sql_step_def execution_failed_def get_def get_default_def)
qed

theorem execute_sql_step_lowercase_where_witness:
  "execute_sql_step (demo_env (Inr (Str ''none'')) (Inr ''[{...}]''))
     [''sql'' \<mapsto> Str ''select * from reviews Where userage > 30'',
      ''filters'' \<mapsto> Str ''userage > 20''] =
     ([RunQuery ''select * from reviews Where userage > 30''],
      Inr [''sql'' \<mapsto> Str ''select * from reviews Where userage > 30'',
           ''filters'' \<mapsto> Str ''userage > 20'',
           ''result'' \<mapsto> Str ''Execution error: list index out of range''])"
proof -
  let ?env = "demo_env (Inr (Str ''none'')) (Inr ''[{...}]'')"
  let ?sql = "''select * from reviews Where userage > 30''"
  let ?state = "[''sql'' \<mapsto> Str ?sql, ''filters'' \<mapsto> Str ''userage > 20'']"
  have 1: "?state ''sql'' = Some (Str ?sql)"
    and 2: "run_query ?env ?sql = Inr ''[{...}]''"
    and 3: "sublist ''WHERE'' (upper ?sql)"
    and 4: "\<not> sublist ''WHERE'' ?sql"
    by (simp_all add: demo_simps)
  show ?thesis
    using execute_sql_step_lowercase_where [where state = ?state and env = ?env, OF 1 2 3 4]
    by simp
qed

text \<open>
  C2. The stage tests for \<open>WHERE\<close> in any casing, and then splits at the upper-case
  \<open>WHERE\<close> only. For the statement of the round-trip example written in lower case
  the query runs, the capture raises, and the stage ends with an execution error in
  \<open>result\<close> and with the filters it had: they are not \<open>a = 1\<close>.
\<close>

theorem filter_capture_lowercase_where:
  "execute_sql_step (demo_env (Inr (Str ''none'')) (Inr ''[{...}]''))
     [''sql'' \<mapsto> Str ''select * from t where a = 1 group by b order by c'',
      ''filters'' \<mapsto> Str ''z = 0''] =
     ([RunQuery ''select * from t where a = 1 group by b order by c''],
      Inr [''sql'' \<mapsto> Str ''select * from t where a = 1 group by b order by c'',
           ''filters'' \<mapsto> Str ''z = 0'',
           ''result'' \<mapsto> Str ''Execution error: list index out of range''])"
  by (simp add: execute_sql_step_def get_def get_default_def capture_filters_def split1_def
      bind_exn_def index_def execution_failed_def demo_simps)

text \<open>
  With the keywords in upper case the capture does what the round-trip example asks:
  the new filters are \<open>a = 1\<close>, whatever the filters were.
\<close>

lemma filter_capture_round_trip:
  "execute_sql_step (demo_env (Inr (Str ''none'')) (Inr ''[{...}]''))
     [''sql'' \<mapsto> Str ''SELECT * FROM t WHERE a = 1 GROUP BY b ORDER BY c'',
      ''filters'' \<mapsto> Str ''z = 0''] =
     ([RunQuery ''SELECT * FROM t WHERE a = 1 GROUP BY b ORDER BY c''],
      Inr [''sql'' \<mapsto> Str ''SELECT * FROM t WHERE a = 1 GROUP BY b ORDER BY c'',
           ''filters'' \<mapsto> Str ''z = 0'',
           ''result'' \<mapsto> Str ''[{...}]'',
           ''filters'' \<mapsto> Str ''a = 1''])"
  by (simp add: execute_sql_step_def get_def get_default_def capture_filters_def split1_def
      split_def bind_exn_def index_def strip_def lstrip_def rstrip_def is_space_def demo_simps)

text \<open>
  C8. When the file exists and parses to more rows than \<open>MAX_ROWS\<close>, the ingestion
  returns by raising a \<open>ValueError\<close>, and it has made no call to the database: no
  engine, no \<open>DROP\<close> statement, no \<open>to_sql\<close>. When the file name and the table name
  are valid as well, the message is the one of the row limit.
\<close>

theorem upload_new_table_row_limit:
  assumes "path_exists env file_path"
    and "read_table_from_file env file_path = Inr df"
    and "MAX_ROWS env < len df"
  shows "(\<exists>msg. upload_new_table env file_path table_name =
                  Some ([], Inl (PyExn ValueError msg)))
         \<and> (secure_filename env (path_name env file_path) \<noteq> []
              \<and> ensure_table_name_safe table_name = Inr safe \<longrightarrow>
            upload_new_table env file_path table_name =
              Some ([], Inl (PyExn ValueError
                               (''File too large: '' @ str_int (len df)
                                @ '' rows exceeds max allowed '' @ str_int (MAX_ROWS env)))))"
proof -
  have names: "\<exists>msg. e = PyExn ValueError msg"
    if "validate_filename env (path_name env file_path) = Inl e
        \<or> ensure_table_name_safe table_name = Inl e" for e
    using that
    by (auto simp: validate_filename_def ensure_table_name_safe_def Let_def split: if_splits)
  show ?thesis
  proof (cases "validate_filename env (path_name env file_path)")
    case (Inl e)
    with names [of e] assms show ?thesis
      by (auto simp: upload_new_table_def validate_filename_def Let_def split: if_splits)
  next
    case valid: (Inr name)
    show ?thesis
    proof (cases "ensure_table_name_safe table_name")
      case (Inl e)
      with names [of e] valid assms show ?thesis
        by (auto simp: upload_new_table_def)
    next
      case (Inr safe')
      with valid assms show ?thesis
        by (simp add: upload_new_table_def)
    qed
  qed
qed

theorem upload_new_table_row_limit_witness:
  "upload_new_table
     (demo_upload_env 2 \<lparr>df_columns = [''User Age''],
                          df_rows = [[Val ''31''], [Val ''45''], [Val ''31'']]\<rparr>)
     ''uploaded_files/reviews.csv'' ''Reviews'' =
   Some ([], Inl (PyExn ValueError ''File too large: 3 rows exceeds max allowed 2''))"
proof -
  let ?df = "\<lparr>df_columns = [''User Age''], df_rows = [[Val ''31''], [Val ''45''], [Val ''31'']]\<rparr>"
  let ?env = "demo_upload_env 2 ?df"
  have 1: "path_exists ?env ''uploaded_files/reviews.csv''"
    and 2: "read_table_from_file ?env ''uploaded_files/reviews.csv'' = Inr ?df"
    and 3: "MAX_ROWS ?env < len ?df"
    by (simp_all add: demo_upload_env_def read_table_from_file_def ALLOWED_EXT_def len_def
        lower_def lower_char_def)
  have 4: "secure_filename ?env (path_name ?env ''uploaded_files/reviews.csv'') \<noteq> []"
    and 5: "ensure_table_name_safe ''Reviews'' = Inr ''reviews''"
    by (simp_all add: demo_upload_env_def ensure_table_name_safe_def isalnum_def strip_def
        lstrip_def rstrip_def is_space_def lower_def lower_char_def)
  have 6: "str_int (len ?df) = ''3''" and 7: "str_int (MAX_ROWS ?env) = ''2''"
    by (simp_all add: str_int_def len_def demo_upload_env_def)
  show ?thesis
    using upload_new_table_row_limit
      [where env = ?env and table_name = "''Reviews''" and safe = "''reviews''", OF 1 2 3] 4 5 6 7
    by simp
qed

end
